theory Spec2Isabelle
  imports Complex_Main "HOL-Library.Sublist" "HOL-Library.Char_ord" "HOL-Library.List_Lexorder"
begin

section \<open>Canonical model (\<^verbatim>\<open>$lib/engines/types\<close>, \<^verbatim>\<open>$lib/models\<close>)\<close>

text \<open>
  A thrown JavaScript value. \<open>TypeError\<close> is what reading a property of \<open>undefined\<close>
  raises; \<open>Error\<close> carries the message of a \<^verbatim>\<open>new Error(...)\<close> or of a rejected
  collaborator call.
\<close>

datatype error = Error string | TypeError

text \<open>The seven values of the \<^verbatim>\<open>Role\<close> union type.\<close>

datatype Role =
  RoleSystem | RoleUser | RoleAssistant | RoleTool | RoleFunction | RoleDeveloper | RoleModel

text \<open>
  \<^verbatim>\<open>ToolCall\<close>: \<^verbatim>\<open>id?: string\<close> and \<^verbatim>\<open>function: { name, arguments }\<close>. The arguments
  object is opaque to the code modelled here, hence the type parameter.
\<close>

record 'a ToolCall =
  call_id :: "string option"
  function_name :: string
  function_arguments :: 'a

record 'a Message =
  role :: Role
  content :: string
  thought :: "string option"
  toolCalls :: "'a ToolCall list"
  toolCallId :: "string option"
  sessionId :: "nat option"
  engineId :: "nat option"
  model :: "string option"

text \<open>
  A JavaScript number: \<^verbatim>\<open>NaN\<close>, the two infinities, or a finite double, taken as the
  real it denotes. \<^verbatim>\<open>Math.max\<close> and \<^verbatim>\<open>Math.min\<close> return \<^verbatim>\<open>NaN\<close> as soon as one
  argument is \<^verbatim>\<open>NaN\<close>, and otherwise one of their arguments, without rounding.
\<close>

datatype number = NaN | NegInfinity | Finite real | PosInfinity

fun Math_max :: "number \<Rightarrow> number \<Rightarrow> number" where
  "Math_max NaN y = NaN"
| "Math_max x NaN = NaN"
| "Math_max PosInfinity y = PosInfinity"
| "Math_max x PosInfinity = PosInfinity"
| "Math_max NegInfinity y = y"
| "Math_max x NegInfinity = x"
| "Math_max (Finite a) (Finite b) = Finite (max a b)"

fun Math_min :: "number \<Rightarrow> number \<Rightarrow> number" where
  "Math_min NaN y = NaN"
| "Math_min x NaN = NaN"
| "Math_min NegInfinity y = NegInfinity"
| "Math_min x NegInfinity = NegInfinity"
| "Math_min PosInfinity y = y"
| "Math_min x PosInfinity = x"
| "Math_min (Finite a) (Finite b) = Finite (min a b)"

text \<open>The session's \<^verbatim>\<open>Partial<Config>\<close>: every field can be absent.\<close>

record Config =
  config_model :: "string option"
  config_engineId :: "nat option"
  contextWindow :: "number option"
  config_temperature :: "number option"
  enabledMcpServers :: "string list option"

record 'a Session =
  session_id :: "nat option"
  config :: Config
  messages :: "'a Message list"

text \<open>
  \<^verbatim>\<open>Session.find(id)\<close> belongs to the persistence layer; the table of sessions is a
  parameter of the translation. A lookup that misses gives \<open>undefined\<close>.
\<close>

type_synonym 'a Sessions = "nat \<rightharpoonup> 'a Session"

definition Session_find :: "'a Sessions \<Rightarrow> nat option \<Rightarrow> 'a Session option" where
  "Session_find sessions sid = (case sid of None \<Rightarrow> None | Some n \<Rightarrow> sessions n)"

text \<open>JavaScript truthiness of a string and of an optional string, and \<^verbatim>\<open>s || ''\<close>.\<close>

definition truthy :: "string \<Rightarrow> bool" where
  "truthy s = (s \<noteq> [])"

definition truthy_opt :: "string option \<Rightarrow> bool" where
  "truthy_opt s = (case s of None \<Rightarrow> False | Some t \<Rightarrow> truthy t)"

definition or_empty :: "string option \<Rightarrow> string" where
  "or_empty s = (case s of None \<Rightarrow> [] | Some t \<Rightarrow> t)"

section \<open>Anthropic message translation (\<^verbatim>\<open>anthropic/message.ts\<close>)\<close>

datatype ParamRole = role_user | role_assistant

datatype 'a ContentBlockParam =
  thinking string
| text_block string
| tool_use string string 'a
| tool_result string "'a ContentBlockParam list"

record 'a MessageParam =
  param_role :: ParamRole
  param_content :: "'a ContentBlockParam list"

definition user :: "'a Message \<Rightarrow> 'a MessageParam" where
  "user message = \<lparr>param_role = role_user, param_content = [text_block (content message)]\<rparr>"

text \<open>The three pushes of \<^verbatim>\<open>assistant\<close>, in order, then the fallback for an empty array.\<close>

definition assistant_blocks :: "'a Message \<Rightarrow> 'a ContentBlockParam list" where
  "assistant_blocks message =
     (if truthy_opt (thought message) then [thinking (or_empty (thought message))] else [])
     @ (if truthy (content message) then [text_block (content message)] else [])
     @ map (\<lambda>call. tool_use (or_empty (call_id call)) (function_name call)
                       (function_arguments call))
           (toolCalls message)"

definition assistant :: "'a Message \<Rightarrow> 'a MessageParam" where
  "assistant message =
     \<lparr>param_role = role_assistant,
      param_content =
        (if assistant_blocks message \<noteq> [] then assistant_blocks message
         else [text_block []])\<rparr>"

text \<open>
  \<^verbatim>\<open>session.messages.flatMap(m => m.toolCalls).find(tc => tc.id === message.toolCallId)\<close>:
  the first call, in history order, whose id is strictly equal to the wanted one.
\<close>

definition find_call :: "'a Message list \<Rightarrow> string option \<Rightarrow> 'a ToolCall option" where
  "find_call msgs wanted = find (\<lambda>tc. call_id tc = wanted) (concat (map toolCalls msgs))"

definition tool_use_id_of :: "'a ToolCall option \<Rightarrow> string" where
  "tool_use_id_of call = (case call of None \<Rightarrow> [] | Some c \<Rightarrow> or_empty (call_id c))"

definition toolResponse :: "'a Sessions \<Rightarrow> 'a Message \<Rightarrow> error + 'a MessageParam" where
  "toolResponse sessions message =
     (case Session_find sessions (sessionId message) of
        None \<Rightarrow> Inl TypeError
      | Some session \<Rightarrow>
          Inr \<lparr>param_role = role_user,
               param_content =
                 [tool_result (tool_use_id_of (find_call (messages session) (toolCallId message)))
                              [text_block (content message)]]\<rparr>)"

definition toAnthropic :: "'a Sessions \<Rightarrow> 'a Message \<Rightarrow> error + 'a MessageParam option" where
  "toAnthropic sessions message =
     (case role message of
        RoleSystem \<Rightarrow> Inr None
      | RoleAssistant \<Rightarrow> Inr (Some (assistant message))
      | RoleTool \<Rightarrow> map_sum id Some (toolResponse sessions message)
      | _ \<Rightarrow> Inr (Some (user message)))"

section \<open>Anthropic tool definitions (\<^verbatim>\<open>anthropic/tool.ts\<close>)\<close>

text \<open>
  The canonical \<^verbatim>\<open>Tool\<close>. \<^verbatim>\<open>properties\<close> is a JavaScript object used as a dictionary;
  its entries are kept in insertion order. A property can lack \<^verbatim>\<open>type\<close> at run time
  and can carry \<^verbatim>\<open>anyOf\<close> (the Gemini translation tests both).
\<close>

record 'a Property =
  prop_type :: "string option"
  prop_description :: string
  anyOf :: "'a option"

record 'a Parameters =
  parameters_type :: string
  required :: "string list"
  properties :: "(string \<times> 'a Property) list"

record 'a Tool =
  tool_name :: string
  tool_description :: string
  parameters :: "'a Parameters"

definition normalize_tool :: "'a Tool \<Rightarrow> 'a Tool" where
  "normalize_tool tool =
     (let params = parameters tool in
      \<lparr>tool_name = tool_name tool,
       tool_description = tool_description tool,
       parameters =
         \<lparr>parameters_type = ''object'',
          required = required params,
          properties = properties params\<rparr>\<rparr>)"

definition toAnthropicTools :: "'a Tool list \<Rightarrow> 'a Tool list" where
  "toAnthropicTools tools = map normalize_tool tools"

section \<open>Anthropic client (\<^verbatim>\<open>anthropic/client.ts\<close>)\<close>

text \<open>
  \<^verbatim>\<open>ClientProps extends ClientOptions\<close>. \<^verbatim>\<open>engineId\<close> is the result of a
  \<^verbatim>\<open>Number(...)\<close> conversion; \<open>None\<close> stands for \<^verbatim>\<open>NaN\<close>.
\<close>

record ClientOptions =
  apiKey :: string
  url :: string

record ClientProps = ClientOptions +
  props_engineId :: "nat option"

record Sdk =
  sdk_apiKey :: string
  sdk_baseURL :: "string option"

record AnthropicClient =
  sdk :: Sdk
  client_engineId :: "nat option"
  baseUrl :: "string option"
  isMiniMax :: bool
  defaultModels :: "string list"

text \<open>\<^verbatim>\<open>String.prototype.includes\<close>: the second string occurs in the first.\<close>

fun includes_str :: "string \<Rightarrow> string \<Rightarrow> bool" where
  "includes_str [] sub = (sub = [])"
| "includes_str (c # cs) sub = (prefix sub (c # cs) \<or> includes_str cs sub)"

definition apiKey_required :: string where
  "apiKey_required = ''Anthropic apiKey obrigat'' @ [CHR 0xC3, CHR 0xB3] @ ''rio''"

definition new_client :: "ClientProps \<Rightarrow> AnthropicClient" where
  "new_client options =
     (let baseUrl' = (if truthy (url options) then Some (url options) else None);
          isMiniMax' = includes_str (or_empty baseUrl') ''api.minimax.io/anthropic''
      in \<lparr>sdk = \<lparr>sdk_apiKey = apiKey options, sdk_baseURL = baseUrl'\<rparr>,
          client_engineId = props_engineId options,
          baseUrl = baseUrl',
          isMiniMax = isMiniMax',
          defaultModels =
            (if isMiniMax' then [''MiniMax-M2'', ''MiniMax-M2-Stable'']
             else [''claude-3-5-sonnet-latest'', ''claude-3-opus-latest''])\<rparr>)"

text \<open>The constructor: the guard on the credential, then the fields.\<close>

definition constructor' :: "ClientProps \<Rightarrow> error + AnthropicClient" where
  "constructor' options =
     (if \<not> truthy (apiKey options) then Inl (Error apiKey_required)
      else Inr (new_client options))"

record Limits =
  max_output_tokens :: "int option"

record Metadata =
  provider :: "string option"
  limits :: "Limits option"

record Model =
  model_id :: "string option"
  model_name :: string
  supportsTools :: bool
  metadata :: "Metadata option"
  model_engineId :: "nat option"

record Options =
  num_ctx :: "number option"
  temperature :: "number option"

text \<open>
  The request of \<^verbatim>\<open>sdk.messages.create\<close>. \<^verbatim>\<open>model\<close> is optional here only because
  \<^verbatim>\<open>defaultModels[0]\<close> is \<open>undefined\<close> on an empty array.
\<close>

record 'a MessageCreateParams =
  params_model :: "string option"
  params_max_tokens :: int
  params_temperature :: "number option"
  params_messages :: "'a MessageParam list"
  params_system :: "string option"
  params_tools :: "'a Tool list option"

definition clamp :: "number \<Rightarrow> number \<Rightarrow> number \<Rightarrow> number" where
  "clamp value' min' max' = Math_min (Math_max value' min') max'"

text \<open>\<^verbatim>\<open>Array.prototype.join\<close> on strings.\<close>

fun join :: "string \<Rightarrow> string list \<Rightarrow> string" where
  "join sep [] = []"
| "join sep [x] = x"
| "join sep (x # y # ys) = x @ sep @ join sep (y # ys)"

text \<open>
  Modelled from the spec: the array extension \<^verbatim>\<open>compact\<close> is not among the sources; it
  drops the \<open>undefined\<close> entries, so that system messages leave the turn sequence.
\<close>

fun compact :: "'b option list \<Rightarrow> 'b list" where
  "compact [] = []"
| "compact (None # xs) = compact xs"
| "compact (Some x # xs) = x # compact xs"

text \<open>\<^verbatim>\<open>Array.prototype.map\<close> with a callback that can throw: the first throw ends it.\<close>

fun map_throwing :: "('b \<Rightarrow> error + 'c) \<Rightarrow> 'b list \<Rightarrow> error + 'c list" where
  "map_throwing f [] = Inr []"
| "map_throwing f (x # xs) =
     (case f x of
        Inl e \<Rightarrow> Inl e
      | Inr y \<Rightarrow> (case map_throwing f xs of Inl e \<Rightarrow> Inl e | Inr ys \<Rightarrow> Inr (y # ys)))"

definition chat_system :: "'a Message list \<Rightarrow> string" where
  "chat_system history =
     join [CHR 0x0A, CHR 0x0A] (map content (filter (\<lambda>m. role m = RoleSystem) history))"

definition chat_max_tokens :: "AnthropicClient \<Rightarrow> Model \<Rightarrow> int" where
  "chat_max_tokens client model' =
     (case Option.bind (Option.bind (metadata model') limits) max_output_tokens of
        Some n \<Rightarrow> if n \<noteq> 0 then n else (if isMiniMax client then 4096 else 1024)
      | None \<Rightarrow> (if isMiniMax client then 4096 else 1024))"

definition chat_temperature :: "Options \<Rightarrow> number" where
  "chat_temperature options =
     clamp (case temperature options of None \<Rightarrow> Finite 0.8 | Some t \<Rightarrow> t)
       (Finite 0.01) (Finite 1)"

text \<open>The request that \<^verbatim>\<open>chat\<close> builds and hands to \<^verbatim>\<open>sdk.messages.create\<close>.\<close>

definition chat_params ::
  "AnthropicClient \<Rightarrow> 'a Sessions \<Rightarrow> Model \<Rightarrow> 'a Message list \<Rightarrow> 'a Tool list \<Rightarrow> Options
   \<Rightarrow> error + 'a MessageCreateParams" where
  "chat_params client sessions model' history tools options =
     (let system = chat_system history in
      case map_throwing (toAnthropic sessions) history of
        Inl e \<Rightarrow> Inl e
      | Inr translated \<Rightarrow>
          Inr \<lparr>params_model = Some (model_name model'),
               params_max_tokens = chat_max_tokens client model',
               params_temperature = Some (chat_temperature options),
               params_messages = compact translated,
               params_system = (if truthy system then Some system else None),
               params_tools =
                 (if length tools > 0 then Some (toAnthropicTools tools) else None)\<rparr>)"

text \<open>
  \<^verbatim>\<open>connected\<close>: one call of \<^verbatim>\<open>sdk.messages.create\<close> with a minimal request, any
  failure caught. The SDK call is a parameter: given the SDK object and a request it
  answers or throws, and it says how many HTTP requests it sent to do so (the SDK can
  send a failing request again). The second component of the result is the number of HTTP
  requests sent.
\<close>

definition ping_params :: "AnthropicClient \<Rightarrow> 'a MessageCreateParams" where
  "ping_params client =
     \<lparr>params_model = (case defaultModels client of [] \<Rightarrow> None | m # _ \<Rightarrow> Some m),
      params_max_tokens = 1,
      params_temperature = None,
      params_messages = [\<lparr>param_role = role_user, param_content = [text_block ''ping'']\<rparr>],
      params_system = None,
      params_tools = None\<rparr>"

definition connected ::
  "(Sdk \<Rightarrow> 'a MessageCreateParams \<Rightarrow> (error + 'r) \<times> nat) \<Rightarrow> AnthropicClient
   \<Rightarrow> (error + bool) \<times> nat" where
  "connected create client =
     (case create (sdk client) (ping_params client) of
        (Inr response, sent) \<Rightarrow> (Inr True, sent)
      | (Inl err, sent) \<Rightarrow> (Inr False, sent))"

text \<open>\<^verbatim>\<open>new AnthropicClient(options).connected()\<close>: a throwing constructor ends it.\<close>

definition new_connected ::
  "(Sdk \<Rightarrow> 'a MessageCreateParams \<Rightarrow> (error + 'r) \<times> nat) \<Rightarrow> ClientProps
   \<Rightarrow> (error + bool) \<times> nat" where
  "new_connected create options =
     (case constructor' options of
        Inl e \<Rightarrow> (Inl e, 0)
      | Inr client \<Rightarrow> connected create client)"

section \<open>Gemini tool definitions (\<^verbatim>\<open>gemini/tool.ts\<close>)\<close>

text \<open>
  The members of the SDK's \<^verbatim>\<open>Type\<close> enumeration that the translation uses.
\<close>

datatype Type = STRING | NUMBER | BOOLEAN | INTEGER | ARRAY | OBJECT

text \<open>
  Indexing an object literal with a string that is not one of its keys finds the members
  inherited from \<^verbatim>\<open>Object.prototype\<close>; all of them are truthy.
\<close>

definition Object_prototype_names :: "string list" where
  "Object_prototype_names =
     [''constructor'', ''__proto__'', ''hasOwnProperty'', ''isPrototypeOf'',
      ''propertyIsEnumerable'', ''toLocaleString'', ''toString'', ''valueOf'',
      ''__defineGetter__'', ''__defineSetter__'', ''__lookupGetter__'', ''__lookupSetter__'']"

text \<open>
  The value of a translated property's \<^verbatim>\<open>type\<close> field: the canonical string left as it
  was, a member of the enumeration, or an inherited member of the lookup table.
\<close>

datatype SchemaType = unchanged string | enum Type | inherited string

definition toGeminiType :: "string \<Rightarrow> SchemaType" where
  "toGeminiType type' =
     (case map_of [(''string'', STRING), (''number'', NUMBER), (''boolean'', BOOLEAN),
                   (''integer'', INTEGER), (''array'', ARRAY), (''object'', OBJECT)] type' of
        Some t \<Rightarrow> enum t
      | None \<Rightarrow>
          if type' \<in> set Object_prototype_names then inherited type' else enum STRING)"

record 'a GeminiProperty =
  gemini_type :: "SchemaType option"
  gemini_description :: string
  gemini_anyOf :: "'a option"

record 'a GeminiParameters =
  gemini_parameters_type :: Type
  gemini_required :: "string list"
  gemini_properties :: "(string \<times> 'a GeminiProperty) list"

record 'a FunctionDeclaration =
  declaration_name :: string
  declaration_description :: string
  declaration_parameters :: "'a GeminiParameters"

text \<open>
  The callback of \<^verbatim>\<open>Object.map\<close> in \<^verbatim>\<open>fromOne\<close>: the property is spread, and its type
  is replaced only when \<^verbatim>\<open>prop.type && !prop.anyOf\<close>.
\<close>

definition fromProperty :: "'a Property \<Rightarrow> 'a GeminiProperty" where
  "fromProperty prop =
     \<lparr>gemini_type =
        (if truthy_opt (prop_type prop) \<and> anyOf prop = None
         then Some (toGeminiType (or_empty (prop_type prop)))
         else map_option unchanged (prop_type prop)),
      gemini_description = prop_description prop,
      gemini_anyOf = anyOf prop\<rparr>"

definition fromOne :: "'a Tool \<Rightarrow> 'a FunctionDeclaration" where
  "fromOne tool =
     (let properties' = map (\<lambda>(name, prop). (name, fromProperty prop))
                            (properties (parameters tool))
      in \<lparr>declaration_name = tool_name tool,
          declaration_description = tool_description tool,
          declaration_parameters =
            \<lparr>gemini_parameters_type = OBJECT,
             gemini_required = required (parameters tool),
             gemini_properties = properties'\<rparr>\<rparr>)"

definition fromMany :: "'a Tool list \<Rightarrow> 'a FunctionDeclaration list" where
  "fromMany tools = map fromOne tools"

section \<open>Engine registry (\<^verbatim>\<open>models/engine.svelte.ts\<close>)\<close>















section \<open>Dispatch loop (\<^verbatim>\<open>dispatch.ts\<close>)\<close>

text \<open>
  The calls that leave \<^verbatim>\<open>dispatch\<close>, in the order they are made: \<^verbatim>\<open>session.tools()\<close>,
  \<^verbatim>\<open>engine.client.chat(...)\<close>, \<^verbatim>\<open>uuid4()\<close>, \<^verbatim>\<open>invoke('call_mcp_tool', ...)\<close>,
  \<^verbatim>\<open>session.addMessage(...)\<close> and \<^verbatim>\<open>message.save()\<close>.
\<close>

datatype 'a Effect =
  tools_call "nat option"
| chat_call Model "'a Message list" "'a Tool list" Options
| uuid4_call
| call_mcp_tool_call "nat option" string 'a
| addMessage_call "'a Message"
| save_call "'a Message"

text \<open>
  The collaborators are parameters. Each takes the state of the outside world and returns
  the new one; the tool fetch, the chat and the tool execution can throw (reject).
  \<^verbatim>\<open>engine_client_chat\<close> is \<^verbatim>\<open>Engine.find(Number(model.engineId)).client.chat\<close>; it is
  \<open>None\<close> when the engine or its client is \<open>undefined\<close>, and calling it then is a
  \<open>TypeError\<close>.
\<close>

record ('a, 'w) Collaborators =
  session_tools :: "'w \<Rightarrow> nat option \<Rightarrow> (error + 'a Tool list) \<times> 'w"
  engine_client_chat ::
    "nat option \<Rightarrow>
       ('w \<Rightarrow> Model \<Rightarrow> 'a Message list \<Rightarrow> 'a Tool list \<Rightarrow> Options \<Rightarrow> (error + 'a Message) \<times> 'w)
         option"
  uuid4 :: "'w \<Rightarrow> string \<times> 'w"
  call_mcp_tool :: "'w \<Rightarrow> nat option \<Rightarrow> string \<Rightarrow> 'a \<Rightarrow> (error + string) \<times> 'w"

record ('a, 'w) DispatchState =
  session :: "'a Session"
  world :: 'w
  effects :: "'a Effect list"

text \<open>
  Modelled from the spec: \<^verbatim>\<open>session.addMessage\<close> and \<^verbatim>\<open>message.save\<close> belong to the
  persistence layer, which is not among the sources. Persisting a message of the session
  appends it to the session's history, which is append-only during a dispatch;
  \<^verbatim>\<open>addMessage\<close> gives the message the session's id.
\<close>

definition addMessage :: "'a Message \<Rightarrow> ('a, 'w) DispatchState \<Rightarrow> ('a, 'w) DispatchState" where
  "addMessage m st =
     (let m' = m\<lparr>sessionId := session_id (session st)\<rparr>
      in st\<lparr>session := (session st)\<lparr>messages := messages (session st) @ [m']\<rparr>,
            effects := effects st @ [addMessage_call m']\<rparr>)"

definition save :: "'a Message \<Rightarrow> ('a, 'w) DispatchState \<Rightarrow> ('a, 'w) DispatchState" where
  "save m st =
     st\<lparr>session := (session st)\<lparr>messages := messages (session st) @ [m]\<rparr>,
        effects := effects st @ [save_call m]\<rparr>"

text \<open>\<^verbatim>\<open>call.id ||= uuid4()\<close>: the generator runs only when the id is absent or empty.\<close>

definition ensure_id ::
  "('a, 'w) Collaborators \<Rightarrow> 'a ToolCall \<Rightarrow> 'w \<Rightarrow> 'a ToolCall \<times> 'w \<times> 'a Effect list" where
  "ensure_id env call w =
     (if truthy_opt (call_id call) then (call, w, [])
      else (case uuid4 env w of
              (fresh, w') \<Rightarrow> (call\<lparr>call_id := Some fresh\<rparr>, w', [uuid4_call])))"

text \<open>How one pass through the body of \<^verbatim>\<open>dispatch\<close> ends: it returns or throws, or it recurses.\<close>

datatype 'a Step = Return "error + 'a Message" | Recurse

text \<open>
  The body of the \<^verbatim>\<open>for\<close> loop, which runs for the first call only since it ends in
  \<^verbatim>\<open>return\<close>: the id, the tool execution, the two messages, the recursion.
\<close>

definition handle_call ::
  "('a, 'w) Collaborators \<Rightarrow> 'a ToolCall \<Rightarrow> ('a, 'w) DispatchState
   \<Rightarrow> 'a Step \<times> ('a, 'w) DispatchState" where
  "handle_call env call0 st =
     (case ensure_id env call0 (world st) of
        (call, w3, generated) \<Rightarrow>
          (case call_mcp_tool env w3 (session_id (session st)) (function_name call)
                  (function_arguments call) of
             (result, w4) \<Rightarrow>
               (let st' = st\<lparr>world := w4,
                             effects := effects st @ generated @
                               [call_mcp_tool_call (session_id (session st))
                                  (function_name call) (function_arguments call)]\<rparr>
                in case result of
                     Inl e \<Rightarrow> (Return (Inl e), st')
                   | Inr content' \<Rightarrow>
                       (Recurse,
                        addMessage
                          \<lparr>role = RoleTool, content = content', thought = None, toolCalls = [],
                           toolCallId = call_id call, sessionId = None, engineId = None,
                           model = None\<rparr>
                          (addMessage
                             \<lparr>role = RoleAssistant, content = [], thought = None,
                              toolCalls = [call], toolCallId = None, sessionId = None,
                              engineId = None, model = None\<rparr>
                             st')))))"

text \<open>
  The provenance written on the final reply: \<^verbatim>\<open>model.engineId\<close>, \<^verbatim>\<open>String(model.id)\<close>
  and \<^verbatim>\<open>session.id\<close>.
\<close>

definition stamp :: "Model \<Rightarrow> 'a Session \<Rightarrow> 'a Message \<Rightarrow> 'a Message" where
  "stamp model' s message =
     message\<lparr>engineId := model_engineId model',
             model := Some (case model_id model' of None \<Rightarrow> ''undefined'' | Some i \<Rightarrow> i),
             sessionId := session_id s\<rparr>"

text \<open>The final reply: stamped with its provenance, saved, returned.\<close>

definition finish ::
  "Model \<Rightarrow> 'a Message \<Rightarrow> ('a, 'w) DispatchState \<Rightarrow> 'a Step \<times> ('a, 'w) DispatchState" where
  "finish model' message st =
     (let message' = stamp model' (session st) message
      in (Return (Inr message'), save message' st))"

text \<open>One pass through the body of \<^verbatim>\<open>dispatch\<close>, up to its \<^verbatim>\<open>return\<close>.\<close>

definition dispatch_round ::
  "('a, 'w) Collaborators \<Rightarrow> Model \<Rightarrow> ('a, 'w) DispatchState
   \<Rightarrow> 'a Step \<times> ('a, 'w) DispatchState" where
  "dispatch_round env model' st0 =
     (let options = \<lparr>num_ctx = contextWindow (config (session st0)),
                     temperature = config_temperature (config (session st0))\<rparr>
      in case session_tools env (world st0) (session_id (session st0)) of
           (fetched, w1) \<Rightarrow>
             (let st1 = st0\<lparr>world := w1,
                            effects := effects st0 @ [tools_call (session_id (session st0))]\<rparr>
              in case fetched of
                   Inl e \<Rightarrow> (Return (Inl e), st1)
                 | Inr tools \<Rightarrow>
                     (case engine_client_chat env (model_engineId model') of
                        None \<Rightarrow> (Return (Inl TypeError), st1)
                      | Some chat \<Rightarrow>
                          (case chat w1 model' (messages (session st1)) tools options of
                             (reply, w2) \<Rightarrow>
                               (let st2 = st1\<lparr>world := w2,
                                              effects := effects st1 @
                                                [chat_call model' (messages (session st1))
                                                   tools options]\<rparr>
                                in case reply of
                                     Inl e \<Rightarrow> (Return (Inl e), st2)
                                   | Inr message \<Rightarrow>
                                       (case toolCalls message of
                                          call # rest \<Rightarrow> handle_call env call st2
                                        | [] \<Rightarrow> finish model' message st2))))))"

text \<open>
  \<^verbatim>\<open>dispatch\<close>. Nothing bounds the recursion, so the function is partial: \<open>None\<close> is a
  dispatch that never returns. The recursive call passes no prompt.
\<close>

partial_function (option) dispatch ::
  "('a, 'w) Collaborators \<Rightarrow> Model \<Rightarrow> string option \<Rightarrow> ('a, 'w) DispatchState
   \<Rightarrow> ((error + 'a Message) \<times> ('a, 'w) DispatchState) option" where
  "dispatch env model' prompt st =
     (case dispatch_round env model' st of
        (Return result, st') \<Rightarrow> Some (result, st')
      | (Recurse, st') \<Rightarrow> dispatch env model' None st')"

text \<open>The two messages of a round as \<^verbatim>\<open>addMessage\<close> stores them.\<close>

definition assistant_record :: "'a Session \<Rightarrow> 'a ToolCall \<Rightarrow> 'a Message" where
  "assistant_record s call =
     \<lparr>role = RoleAssistant, content = [], thought = None, toolCalls = [call],
      toolCallId = None, sessionId = session_id s, engineId = None, model = None\<rparr>"

definition tool_record :: "'a Session \<Rightarrow> 'a ToolCall \<Rightarrow> string \<Rightarrow> 'a Message" where
  "tool_record s call content' =
     \<lparr>role = RoleTool, content = content', thought = None, toolCalls = [],
      toolCallId = call_id call, sessionId = session_id s, engineId = None, model = None\<rparr>"

section \<open>Example values\<close>

definition example_config :: Config where
  "example_config =
     \<lparr>config_model = Some ''anthropic:claude-3-opus-latest'', config_engineId = Some 1,
      contextWindow = Some (Finite 4096), config_temperature = Some (Finite 0.8),
      enabledMcpServers = None\<rparr>"

definition example_message :: "Role \<Rightarrow> string \<Rightarrow> unit Message" where
  "example_message r c =
     \<lparr>role = r, content = c, thought = None, toolCalls = [], toolCallId = None,
      sessionId = Some 1, engineId = None, model = None\<rparr>"

definition example_client :: AnthropicClient where
  "example_client = new_client \<lparr>apiKey = ''sk-test'', url = [], props_engineId = Some 1\<rparr>"

definition example_model :: "int option \<Rightarrow> Model" where
  "example_model limit =
     \<lparr>model_id = Some ''anthropic:claude-3-opus-latest'', model_name = ''claude-3-opus-latest'',
      supportsTools = True,
      metadata = Some \<lparr>provider = Some ''Anthropic'',
                       limits = Some \<lparr>max_output_tokens = limit\<rparr>\<rparr>,
      model_engineId = Some 1\<rparr>"

definition example_tool :: "string option \<Rightarrow> unit Tool" where
  "example_tool ty =
     \<lparr>tool_name = ''get_weather'', tool_description = ''Weather for a place'',
      parameters =
        \<lparr>parameters_type = ''object'', required = [''location''],
         properties =
           [(''location'', \<lparr>prop_type = ty, prop_description = ''City'', anyOf = None\<rparr>)]\<rparr>\<rparr>"








type_synonym arguments = "(string \<times> string) list"

definition example_call :: "string option \<Rightarrow> arguments ToolCall" where
  "example_call i =
     \<lparr>call_id = i, function_name = ''get_weather'',
      function_arguments = [(''location'', ''NYC'')]\<rparr>"

definition example_user :: "arguments Message" where
  "example_user =
     \<lparr>role = RoleUser, content = ''What is the weather in NYC?'', thought = None,
      toolCalls = [], toolCallId = None, sessionId = Some 1, engineId = None, model = None\<rparr>"

definition example_reply :: "string \<Rightarrow> arguments ToolCall list \<Rightarrow> arguments Message" where
  "example_reply c calls =
     \<lparr>role = RoleAssistant, content = c, thought = None, toolCalls = calls,
      toolCallId = None, sessionId = None, engineId = None, model = None\<rparr>"

definition example_chat ::
  "unit \<Rightarrow> Model \<Rightarrow> arguments Message list \<Rightarrow> arguments Tool list \<Rightarrow> Options
   \<Rightarrow> (error + arguments Message) \<times> unit" where
  "example_chat w m history tools options =
     (if length history = 1 then Inr (example_reply [] [example_call (Some [])])
      else Inr (example_reply ''Sunny in NYC.'' []), w)"

definition example_env :: "(error + string) \<Rightarrow> (arguments, unit) Collaborators" where
  "example_env result =
     \<lparr>session_tools = (\<lambda>w sid. (Inr [], w)),
      engine_client_chat = (\<lambda>i. Some example_chat),
      uuid4 = (\<lambda>w. (''uuid-1'', w)),
      call_mcp_tool = (\<lambda>w sid name args. (result, w))\<rparr>"

definition example_state :: "(arguments, unit) DispatchState" where
  "example_state =
     \<lparr>session = \<lparr>session_id = Some 1, config = example_config, messages = [example_user]\<rparr>,
      world = (), effects = []\<rparr>"


definition example_persisted :: "string \<Rightarrow> arguments Message list" where
  "example_persisted content' =
     [assistant_record (session example_state) (example_call (Some ''uuid-1'')),
      tool_record (session example_state) (example_call (Some ''uuid-1'')) content']"

definition example_final :: "arguments Message" where
  "example_final =
     \<lparr>role = RoleAssistant, content = ''Sunny in NYC.'', thought = None, toolCalls = [],
      toolCallId = None, sessionId = Some 1, engineId = Some 1,
      model = Some ''anthropic:claude-3-opus-latest''\<rparr>"

definition example_options :: Options where
  "example_options = \<lparr>num_ctx = Some (Finite 4096), temperature = Some (Finite 0.8)\<rparr>"

definition example_round_effects :: "string \<Rightarrow> arguments Effect list" where
  "example_round_effects content' =
     [tools_call (Some 1),
      chat_call (example_model None) [example_user] [] example_options,
      uuid4_call,
      call_mcp_tool_call (Some 1) ''get_weather'' [(''location'', ''NYC'')],
      addMessage_call (example_persisted content' ! 0),
      addMessage_call (example_persisted content' ! 1)]"

definition example_state_after_round :: "string \<Rightarrow> (arguments, unit) DispatchState" where
  "example_state_after_round content' =
     \<lparr>session = \<lparr>session_id = Some 1, config = example_config,
                 messages = example_user # example_persisted content'\<rparr>,
      world = (), effects = example_round_effects content'\<rparr>"

definition example_state_final :: "string \<Rightarrow> (arguments, unit) DispatchState" where
  "example_state_final content' =
     \<lparr>session = \<lparr>session_id = Some 1, config = example_config,
                 messages = example_user # example_persisted content' @ [example_final]\<rparr>,
      world = (),
      effects = example_round_effects content' @
        [tools_call (Some 1),
         chat_call (example_model None) (example_user # example_persisted content') []
           example_options,
         save_call example_final]\<rparr>"


section \<open>Properties of the message translation\<close>

lemma find_Some_mem: "find P xs = Some x \<Longrightarrow> P x \<and> x \<in> set xs"
  by (induction xs) (auto split: if_splits)

lemma tool_use_id_of_find_call:
  "tool_use_id_of (find_call msgs wanted) =
     (if wanted \<in> call_id ` set (concat (map toolCalls msgs)) then or_empty wanted else [])"
proof (cases "find_call msgs wanted")
  case None
  then have "find (\<lambda>tc. call_id tc = wanted) (concat (map toolCalls msgs)) = None"
    by (simp add: find_call_def)
  then have "wanted \<notin> call_id ` set (concat (map toolCalls msgs))"
    by (auto simp: find_None_iff)
  with None show ?thesis
    by (simp add: tool_use_id_of_def)
next
  case (Some c)
  then have "call_id c = wanted \<and> c \<in> set (concat (map toolCalls msgs))"
    unfolding find_call_def by (rule find_Some_mem)
  with Some show ?thesis
    by (auto simp: tool_use_id_of_def)
qed

text \<open>
  C5. An assistant message with empty content, no thought and no tool calls is still
  translated to a turn (the translation is not \<open>undefined\<close>), and the turn holds
  exactly one visible-text unit, whose text is the empty string.
\<close>

theorem C5_empty_assistant_turn:
  assumes "role message = RoleAssistant"
    and "content message = []"
    and "thought message = None"
    and "toolCalls message = []"
  shows "toAnthropic sessions message =
           Inr (Some \<lparr>param_role = role_assistant, param_content = [text_block []]\<rparr>)"
  using assms
  by (simp add: toAnthropic_def assistant_def assistant_blocks_def truthy_def truthy_opt_def)

theorem C5_empty_assistant_turn_witness:
  "toAnthropic Map.empty
     \<lparr>role = RoleAssistant, content = [], thought = None, toolCalls = ([] :: unit ToolCall list),
      toolCallId = None, sessionId = Some 1, engineId = None, model = None\<rparr>
   = Inr (Some \<lparr>param_role = role_assistant, param_content = [text_block []]\<rparr>)"
  by (rule C5_empty_assistant_turn) simp_all

text \<open>
  C10. A tool message whose session is found is translated to a user-role turn holding
  exactly one tool-result unit, whose nested text is the message's content. The unit's
  \<^verbatim>\<open>tool_use_id\<close> comes from the scan of the session's tool calls: when a call with the
  message's \<^verbatim>\<open>toolCallId\<close> exists it is that id (the empty string standing for an
  absent one), and when none exists it is the empty string, whatever \<^verbatim>\<open>toolCallId\<close> is.
\<close>

theorem C10_tool_result_turn:
  assumes "role message = RoleTool"
    and "Session_find sessions (sessionId message) = Some found"
  shows "toAnthropic sessions message =
           Inr (Some \<lparr>param_role = role_user,
                      param_content =
                        [tool_result
                           (if toolCallId message
                                 \<in> call_id ` set (concat (map toolCalls (messages found)))
                            then or_empty (toolCallId message) else [])
                           [text_block (content message)]]\<rparr>)"
  using assms
  by (simp add: toAnthropic_def toolResponse_def tool_use_id_of_find_call)

theorem C10_tool_result_turn_witness:
  "toAnthropic
     [1 \<mapsto> \<lparr>session_id = Some 1, config = example_config,
             messages =
               [\<lparr>role = RoleAssistant, content = [], thought = None,
                 toolCalls = [\<lparr>call_id = Some ''call-1'', function_name = ''get_weather'',
                              function_arguments = ()\<rparr>],
                 toolCallId = None, sessionId = Some 1, engineId = None, model = None\<rparr>]\<rparr>]
     \<lparr>role = RoleTool, content = ''sunny'', thought = None, toolCalls = [],
      toolCallId = Some ''call-1'', sessionId = Some 1, engineId = None, model = None\<rparr>
   = Inr (Some \<lparr>param_role = role_user,
                param_content = [tool_result ''call-1'' [text_block ''sunny'']]\<rparr>)
   \<and>
   toAnthropic
     [1 \<mapsto> \<lparr>session_id = Some 1, config = example_config,
             messages = ([] :: unit Message list)\<rparr>]
     \<lparr>role = RoleTool, content = ''sunny'', thought = None, toolCalls = [],
      toolCallId = Some ''call-1'', sessionId = Some 1, engineId = None, model = None\<rparr>
   = Inr (Some \<lparr>param_role = role_user,
                param_content = [tool_result [] [text_block ''sunny'']]\<rparr>)"
  using
    C10_tool_result_turn [of
      "\<lparr>role = RoleTool, content = ''sunny'', thought = None, toolCalls = [],
        toolCallId = Some ''call-1'', sessionId = Some 1, engineId = None, model = None\<rparr>"
      "[1 \<mapsto> \<lparr>session_id = Some 1, config = example_config,
             messages =
               [\<lparr>role = RoleAssistant, content = [], thought = None,
                 toolCalls = [\<lparr>call_id = Some ''call-1'', function_name = ''get_weather'',
                              function_arguments = ()\<rparr>],
                 toolCallId = None, sessionId = Some 1, engineId = None, model = None\<rparr>]\<rparr>]"
      "\<lparr>session_id = Some 1, config = example_config,
             messages =
               [\<lparr>role = RoleAssistant, content = [], thought = None,
                 toolCalls = [\<lparr>call_id = Some ''call-1'', function_name = ''get_weather'',
                              function_arguments = ()\<rparr>],
                 toolCallId = None, sessionId = Some 1, engineId = None, model = None\<rparr>]\<rparr>"]
    C10_tool_result_turn [of
      "\<lparr>role = RoleTool, content = ''sunny'', thought = None, toolCalls = [],
        toolCallId = Some ''call-1'', sessionId = Some 1, engineId = None, model = None\<rparr>"
      "[1 \<mapsto> \<lparr>session_id = Some 1, config = example_config,
             messages = ([] :: unit Message list)\<rparr>]"
      "\<lparr>session_id = Some 1, config = example_config,
             messages = ([] :: unit Message list)\<rparr>"]
  by (simp add: Session_find_def or_empty_def)

section \<open>Properties of the Anthropic client\<close>

lemma map_throwing_toAnthropic:
  assumes "\<forall>m\<in>set history. role m = RoleTool \<longrightarrow> Session_find sessions (sessionId m) \<noteq> None"
  shows "\<exists>ts. map_throwing (toAnthropic sessions) history = Inr ts
           \<and> list_all2 (\<lambda>m q. toAnthropic sessions m = Inr (Some q))
                 (filter (\<lambda>m. role m \<noteq> RoleSystem) history) (compact ts)"
  using assms
proof (induction history)
  case Nil
  then show ?case by simp
next
  case (Cons m ms)
  then obtain ts where ts: "map_throwing (toAnthropic sessions) ms = Inr ts"
    "list_all2 (\<lambda>m q. toAnthropic sessions m = Inr (Some q))
       (filter (\<lambda>m. role m \<noteq> RoleSystem) ms) (compact ts)"
    by auto
  have "\<exists>t. toAnthropic sessions m = Inr t \<and> (t = None \<longleftrightarrow> role m = RoleSystem)"
  proof (cases "role m")
    case RoleTool
    with Cons.prems obtain s where "Session_find sessions (sessionId m) = Some s" by auto
    with RoleTool show ?thesis by (simp add: toAnthropic_def toolResponse_def)
  qed (simp_all add: toAnthropic_def)
  then obtain t where t: "toAnthropic sessions m = Inr t" "t = None \<longleftrightarrow> role m = RoleSystem"
    by blast
  show ?case
  proof (cases t)
    case None
    with t ts show ?thesis by simp
  next
    case (Some q)
    with t ts show ?thesis by simp
  qed
qed

lemma example_chat_params:
  "chat_params example_client Map.empty (example_model limit)
     [example_message RoleSystem ''A'', example_message RoleSystem ''B'',
      example_message RoleUser ''hi'']
     [] \<lparr>num_ctx = None, temperature = Some t\<rparr>
   = Inr \<lparr>params_model = Some ''claude-3-opus-latest'',
          params_max_tokens = chat_max_tokens example_client (example_model limit),
          params_temperature = Some (chat_temperature \<lparr>num_ctx = None, temperature = Some t\<rparr>),
          params_messages = [\<lparr>param_role = role_user, param_content = [text_block ''hi'']\<rparr>],
          params_system = Some (''A'' @ [CHR 0x0A, CHR 0x0A] @ ''B''),
          params_tools = None\<rparr>"
  by (simp add: chat_params_def chat_system_def example_message_def example_model_def
        toAnthropic_def user_def truthy_def)

text \<open>
  C4. When every tool message of the history has its session, \<^verbatim>\<open>chat\<close> builds a
  request. The text of its side-channel \<^verbatim>\<open>system\<close> field is the contents of the system
  messages, in order, joined by a blank line; the field carries that text when it is not
  empty and is left out when it is. The turns of the request are the translations of
  exactly the non-system messages, in order.
\<close>

theorem C4_system_side_channel:
  assumes "\<forall>m\<in>set history. role m = RoleTool \<longrightarrow> Session_find sessions (sessionId m) \<noteq> None"
  shows "\<exists>p. chat_params client sessions model' history tools options = Inr p
           \<and> or_empty (params_system p) =
               join [CHR 0x0A, CHR 0x0A]
                 (map content (filter (\<lambda>m. role m = RoleSystem) history))
           \<and> params_system p =
               (let system = join [CHR 0x0A, CHR 0x0A]
                               (map content (filter (\<lambda>m. role m = RoleSystem) history))
                in if system = [] then None else Some system)
           \<and> list_all2 (\<lambda>m q. toAnthropic sessions m = Inr (Some q))
                 (filter (\<lambda>m. role m \<noteq> RoleSystem) history) (params_messages p)"
proof -
  from map_throwing_toAnthropic [OF assms] obtain ts where
    "map_throwing (toAnthropic sessions) history = Inr ts"
    "list_all2 (\<lambda>m q. toAnthropic sessions m = Inr (Some q))
       (filter (\<lambda>m. role m \<noteq> RoleSystem) history) (compact ts)"
    by blast
  then show ?thesis
    by (simp add: chat_params_def chat_system_def truthy_def or_empty_def Let_def)
qed

theorem C4_system_side_channel_witness:
  "\<exists>p. chat_params example_client Map.empty (example_model None)
          [example_message RoleSystem ''A'', example_message RoleSystem ''B'',
           example_message RoleUser ''hi'']
          [] \<lparr>num_ctx = None, temperature = None\<rparr> = Inr p
        \<and> params_system p = Some (''A'' @ [CHR 0x0A, CHR 0x0A] @ ''B'')
        \<and> list_all2 (\<lambda>m q. toAnthropic Map.empty m = Inr (Some q))
             [example_message RoleUser ''hi''] (params_messages p)"
proof -
  have h: "\<forall>m\<in>set [example_message RoleSystem ''A'', example_message RoleSystem ''B'',
                    example_message RoleUser ''hi''].
             role m = RoleTool \<longrightarrow> Session_find Map.empty (sessionId m) \<noteq> None"
    by (simp add: example_message_def)
  from C4_system_side_channel [OF h, of example_client "example_model None" "[]"
      "\<lparr>num_ctx = None, temperature = None\<rparr>"]
  show ?thesis
    by (auto simp: example_message_def)
qed

text \<open>
  C6 (as amended). When the requested temperature is absent or is a number other than
  \<^verbatim>\<open>NaN\<close>, the temperature of a request built by \<^verbatim>\<open>chat\<close> is a finite number in
  [0.01, 1]: a requested value above 1 is sent as 1, one below 0.01 as 0.01, one inside
  the range unchanged, and an absent one as 0.8.
\<close>

theorem C6_temperature_clamped:
  assumes "chat_params client sessions model' history tools options = Inr p"
    and "temperature options \<noteq> Some NaN"
  shows "\<exists>t. params_temperature p = Some (Finite t) \<and> 0.01 \<le> t \<and> t \<le> 1
            \<and> (temperature options = None \<longrightarrow> t = 0.8)
            \<and> (\<forall>x. temperature options = Some (Finite x) \<longrightarrow>
                   t = (if x > 1 then 1 else if x < 0.01 then 0.01 else x))
            \<and> (temperature options = Some PosInfinity \<longrightarrow> t = 1)
            \<and> (temperature options = Some NegInfinity \<longrightarrow> t = 0.01)"
proof -
  from assms(1) have sent: "params_temperature p = Some (chat_temperature options)"
    by (auto simp: chat_params_def Let_def split: sum.splits)
  show ?thesis
  proof (cases "temperature options")
    case None
    with sent show ?thesis
      by (intro exI [where x = "0.8"]) (simp add: chat_temperature_def clamp_def)
  next
    case (Some requested)
    show ?thesis
    proof (cases requested)
      case NaN
      with Some assms(2) show ?thesis by simp
    next
      case NegInfinity
      with Some sent show ?thesis
        by (intro exI [where x = "0.01"]) (simp add: chat_temperature_def clamp_def)
    next
      case (Finite x)
      with Some sent show ?thesis
        by (intro exI [where x = "if x > 1 then 1 else if x < 0.01 then 0.01 else x"])
           (simp add: chat_temperature_def clamp_def)
    next
      case PosInfinity
      with Some sent show ?thesis
        by (intro exI [where x = 1]) (simp add: chat_temperature_def clamp_def)
    qed
  qed
qed

theorem C6_temperature_clamped_witness:
  "\<exists>p. chat_params example_client Map.empty (example_model None)
          [example_message RoleSystem ''A'', example_message RoleSystem ''B'',
           example_message RoleUser ''hi'']
          [] \<lparr>num_ctx = None, temperature = Some (Finite 1.5)\<rparr> = Inr p
        \<and> params_temperature p = Some (Finite 1)"
proof -
  have requested: "temperature \<lparr>num_ctx = None, temperature = Some (Finite 1.5)\<rparr> \<noteq> Some NaN"
    by simp
  obtain p where built:
    "chat_params example_client Map.empty (example_model None)
       [example_message RoleSystem ''A'', example_message RoleSystem ''B'',
        example_message RoleUser ''hi'']
       [] \<lparr>num_ctx = None, temperature = Some (Finite 1.5)\<rparr> = Inr p"
    using example_chat_params [of None "Finite 1.5"] by blast
  from C6_temperature_clamped [OF built requested]
  obtain t where sent: "params_temperature p = Some (Finite t)"
    and clamped: "\<forall>x. temperature \<lparr>num_ctx = None, temperature = Some (Finite 1.5)\<rparr>
                      = Some (Finite x)
                    \<longrightarrow> t = (if x > 1 then 1 else if x < 0.01 then 0.01 else x)"
    by blast
  from clamped [rule_format, of "1.5"] have "t = 1" by simp
  with sent built show ?thesis by blast
qed

text \<open>
  The claim as stated fails for the temperature \<^verbatim>\<open>NaN\<close>: \<^verbatim>\<open>Math.max\<close> and
  \<^verbatim>\<open>Math.min\<close> pass it on, and the request carries \<^verbatim>\<open>NaN\<close>, which is not in [0.01, 1].
\<close>

theorem C6_NaN_counterexample:
  "map_sum id params_temperature
     (chat_params example_client Map.empty (example_model None)
        [example_message RoleUser ''hi''] [] \<lparr>num_ctx = None, temperature = Some NaN\<rparr>)
   = Inr (Some NaN)"
  by (simp add: chat_params_def chat_temperature_def clamp_def example_message_def
        toAnthropic_def user_def Let_def)




text \<open>
  C3 (as amended). With an empty credential the constructor of the adapter throws, and no
  HTTP request has been sent: there is no adapter whose \<^verbatim>\<open>connected\<close> could return
  \<open>false\<close>. With any other credential the adapter is constructed and probed. On every
  adapter \<^verbatim>\<open>connected\<close> never throws: it returns \<open>true\<close> when its call of the SDK
  succeeds and \<open>false\<close> on every failure of that call.
\<close>

theorem C3_connected:
  "new_connected create options =
     (if apiKey options = [] then (Inl (Error apiKey_required), 0)
      else connected create (new_client options))
   \<and> fst (connected create client)
       = Inr (\<not> isl (fst (create (sdk client) (ping_params client))))"
  by (simp add: new_connected_def constructor'_def connected_def truthy_def
        split: prod.splits sum.splits)

text \<open>
  The claim as stated fails: constructing the adapter with an empty credential and probing it
  throws instead of returning \<open>false\<close>.
\<close>

theorem C3_empty_credential_counterexample:
  "new_connected
     (\<lambda>(s :: Sdk) (r :: unit MessageCreateParams). ((Inr () :: error + unit), 1 :: nat))
     \<lparr>apiKey = [], url = ''https://api.anthropic.com'', props_engineId = Some 1\<rparr>
   = (Inl (Error apiKey_required), 0)"
  by (simp add: new_connected_def constructor'_def truthy_def)

section \<open>Properties of the tool-definition translations\<close>

lemma fromOne_properties:
  "list_all2
     (\<lambda>(name, prop) (name', prop').
        name' = name \<and> gemini_description prop' = prop_description prop
        \<and> gemini_anyOf prop' = anyOf prop
        \<and> gemini_type prop' =
            (case prop_type prop of
               None \<Rightarrow> None
             | Some t \<Rightarrow>
                 if t \<noteq> [] \<and> anyOf prop = None then Some (toGeminiType t)
                 else Some (unchanged t)))
     props (map (\<lambda>(name, prop). (name, fromProperty prop)) props)"
  by (induction props)
     (auto simp: fromProperty_def truthy_opt_def truthy_def or_empty_def split: option.splits)

text \<open>
  C8 (as amended). Both translations keep a tool's name, description, required list and
  property names, and set the type of the parameters object to the provider's spelling of
  \<open>object\<close>. The Anthropic translation passes every property through unchanged. The
  Gemini translation keeps each property's description and \<^verbatim>\<open>anyOf\<close>, and changes its
  type only when the type is present and non-empty and the property has no \<^verbatim>\<open>anyOf\<close>:
  then each of the six known type names becomes its enumeration member and any other name
  that is not a member of \<^verbatim>\<open>Object.prototype\<close> becomes \<open>STRING\<close>. An absent or empty
  type, and the type of a property with \<^verbatim>\<open>anyOf\<close>, stay as they are.
\<close>

theorem C8_tool_translation:
  "tool_name (normalize_tool tool) = tool_name tool
   \<and> tool_description (normalize_tool tool) = tool_description tool
   \<and> required (parameters (normalize_tool tool)) = required (parameters tool)
   \<and> properties (parameters (normalize_tool tool)) = properties (parameters tool)
   \<and> parameters_type (parameters (normalize_tool tool)) = ''object''
   \<and> declaration_name (fromOne tool) = tool_name tool
   \<and> declaration_description (fromOne tool) = tool_description tool
   \<and> gemini_required (declaration_parameters (fromOne tool)) = required (parameters tool)
   \<and> gemini_parameters_type (declaration_parameters (fromOne tool)) = OBJECT
   \<and> map fst (gemini_properties (declaration_parameters (fromOne tool)))
       = map fst (properties (parameters tool))
   \<and> list_all2
        (\<lambda>(name, prop) (name', prop').
           name' = name \<and> gemini_description prop' = prop_description prop
           \<and> gemini_anyOf prop' = anyOf prop
           \<and> gemini_type prop' =
               (case prop_type prop of
                  None \<Rightarrow> None
                | Some t \<Rightarrow>
                    if t \<noteq> [] \<and> anyOf prop = None then Some (toGeminiType t)
                    else Some (unchanged t)))
        (properties (parameters tool))
        (gemini_properties (declaration_parameters (fromOne tool)))
   \<and> toGeminiType ''string'' = enum STRING \<and> toGeminiType ''number'' = enum NUMBER
   \<and> toGeminiType ''boolean'' = enum BOOLEAN \<and> toGeminiType ''integer'' = enum INTEGER
   \<and> toGeminiType ''array'' = enum ARRAY \<and> toGeminiType ''object'' = enum OBJECT
   \<and> (t \<notin> set [''string'', ''number'', ''boolean'', ''integer'', ''array'', ''object'']
        \<and> t \<notin> set Object_prototype_names
      \<longrightarrow> toGeminiType t = enum STRING)"
proof -
  have "map fst (map (\<lambda>(name, prop). (name, fromProperty prop)) props) = map fst props"
    for props :: "(string \<times> 'a Property) list"
    by (induction props) auto
  then show ?thesis
    by (simp add: normalize_tool_def fromOne_def Let_def fromOne_properties toGeminiType_def)
qed

theorem C8_tool_translation_witness:
  "toGeminiType ''float'' = enum STRING
   \<and> map fst (gemini_properties (declaration_parameters (fromOne (example_tool (Some ''float'')))))
       = [''location'']
   \<and> map (gemini_type \<circ> snd)
        (gemini_properties (declaration_parameters (fromOne (example_tool (Some ''float'')))))
       = [Some (enum STRING)]"
proof -
  from C8_tool_translation [of "example_tool (Some ''float'')" "''float''"]
  have "toGeminiType ''float'' = enum STRING"
    by (simp add: Object_prototype_names_def)
  then show ?thesis
    by (simp add: example_tool_def fromOne_def fromProperty_def truthy_opt_def truthy_def
          or_empty_def)
qed

text \<open>
  The claim as stated fails: the Gemini translation leaves a property that has no type
  without one, instead of giving it \<open>STRING\<close>.
\<close>

theorem C8_absent_type_counterexample:
  "map (gemini_type \<circ> snd)
     (gemini_properties (declaration_parameters (fromOne (example_tool None))))
     = [None]"
  by (simp add: example_tool_def fromOne_def fromProperty_def truthy_opt_def)

section \<open>Properties of the engine registry\<close>









section \<open>Properties of the dispatch loop\<close>

lemma dispatch_round_reply:
  assumes "session_tools env (world st) (session_id (session st)) = (Inr tools, w1)"
    and "engine_client_chat env (model_engineId model') = Some chat"
    and "chat w1 model' (messages (session st)) tools
           \<lparr>num_ctx = contextWindow (config (session st)),
            temperature = config_temperature (config (session st))\<rparr> = (Inr message, w2)"
  shows "dispatch_round env model' st =
           (let st2 = st\<lparr>world := w2,
                          effects := effects st @
                            [tools_call (session_id (session st)),
                             chat_call model' (messages (session st)) tools
                               \<lparr>num_ctx = contextWindow (config (session st)),
                                temperature = config_temperature (config (session st))\<rparr>]\<rparr>
            in case toolCalls message of
                 call # rest \<Rightarrow> handle_call env call st2
               | [] \<Rightarrow> finish model' message st2)"
  using assms by (simp add: dispatch_round_def Let_def)



lemmas example_defs =
  example_env_def example_state_def example_chat_def example_reply_def example_call_def
  example_user_def example_config_def example_model_def example_persisted_def
  example_final_def example_options_def example_round_effects_def
  example_state_after_round_def example_state_final_def assistant_record_def tool_record_def

lemma example_first_round:
  "dispatch_round (example_env (Inr content')) (example_model None) example_state
     = (Recurse, example_state_after_round content')"
  by (simp add: dispatch_round_def handle_call_def ensure_id_def addMessage_def
        truthy_opt_def truthy_def Let_def example_defs)

lemma example_second_round:
  "dispatch_round (example_env (Inr content')) (example_model None)
     (example_state_after_round content')
     = (Return (Inr example_final), example_state_final content')"
  by (simp add: dispatch_round_def finish_def save_def stamp_def Let_def example_defs)

lemma example_dispatch:
  "dispatch (example_env (Inr content')) (example_model None) prompt example_state
     = Some (Inr example_final, example_state_final content')"
  by (simp add: dispatch.simps [of _ _ _ example_state]
        dispatch.simps [of _ _ _ "example_state_after_round content'"]
        example_first_round example_second_round)

lemma example_failing_round:
  "dispatch_round (example_env (Inl e)) (example_model None) example_state
     = (Return (Inl e),
        example_state\<lparr>effects := take 4 (example_round_effects [])\<rparr>)"
  by (simp add: dispatch_round_def handle_call_def ensure_id_def
        truthy_opt_def truthy_def Let_def example_defs)


lemma example_tools:
  "session_tools (example_env result) (world example_state)
     (session_id (session example_state)) = (Inr [], ())"
  by (simp add: example_env_def)

lemma example_tools_after_round:
  "session_tools (example_env result) (world (example_state_after_round content'))
     (session_id (session (example_state_after_round content'))) = (Inr [], ())"
  by (simp add: example_env_def)

lemma example_client:
  "engine_client_chat (example_env result) (model_engineId (example_model None))
     = Some example_chat"
  by (simp add: example_env_def)

lemma example_reply_first:
  "example_chat () (example_model None) (messages (session example_state)) []
     \<lparr>num_ctx = contextWindow (config (session example_state)),
      temperature = config_temperature (config (session example_state))\<rparr>
   = (Inr (example_reply [] [example_call (Some [])]), ())"
  by (simp add: example_chat_def example_state_def)

lemma example_reply_second:
  "example_chat () (example_model None)
     (messages (session (example_state_after_round content'))) []
     \<lparr>num_ctx = contextWindow (config (session (example_state_after_round content'))),
      temperature = config_temperature (config (session (example_state_after_round content')))\<rparr>
   = (Inr (example_reply ''Sunny in NYC.'' []), ())"
  by (simp add: example_chat_def example_state_after_round_def example_persisted_def)

lemma example_ensure_id:
  "ensure_id (example_env result) (example_call (Some [])) ()
     = (example_call (Some ''uuid-1''), (), [uuid4_call])"
  by (simp add: ensure_id_def example_env_def example_call_def truthy_opt_def truthy_def)


text \<open>
  C1 (as amended). Given that the tools were fetched and the adapter replied: a reply
  without tool calls is stamped with the model's engine and id and the session's id,
  saved and returned. For a reply with tool calls the loop takes the first call, makes
  sure it has an id (a generated one when the provider's is absent or empty), executes the
  tool with the call's name and arguments, and only then persists the assistant message
  carrying exactly that call and the tool message carrying the call's id and the tool's
  answer; it then recurses on the longer history, the remaining calls untouched.
\<close>

theorem C1_dispatch_round:
  assumes "session_tools env (world st) (session_id (session st)) = (Inr tools, w1)"
    and "engine_client_chat env (model_engineId model') = Some chat"
    and "chat w1 model' (messages (session st)) tools
           \<lparr>num_ctx = contextWindow (config (session st)),
            temperature = config_temperature (config (session st))\<rparr> = (Inr message, w2)"
  shows
    "(toolCalls message = [] \<longrightarrow>
        dispatch env model' prompt st =
          Some (Inr (stamp model' (session st) message),
                st\<lparr>session := (session st)
                   \<lparr>messages := messages (session st) @ [stamp model' (session st) message]\<rparr>,
                 world := w2,
                 effects := effects st @
                   [tools_call (session_id (session st)),
                    chat_call model' (messages (session st)) tools
                      \<lparr>num_ctx = contextWindow (config (session st)),
                       temperature = config_temperature (config (session st))\<rparr>,
                    save_call (stamp model' (session st) message)]\<rparr>))
     \<and> (\<forall>call rest call' w3 generated content' w4.
          toolCalls message = call # rest
          \<and> ensure_id env call w2 = (call', w3, generated)
          \<and> call_mcp_tool env w3 (session_id (session st)) (function_name call')
                (function_arguments call') = (Inr content', w4)
          \<longrightarrow>
          dispatch env model' prompt st =
            dispatch env model' None
              (st\<lparr>session := (session st)
                 \<lparr>messages := messages (session st) @
                    [assistant_record (session st) call',
                     tool_record (session st) call' content']\<rparr>,
               world := w4,
               effects := effects st @
                 [tools_call (session_id (session st)),
                  chat_call model' (messages (session st)) tools
                    \<lparr>num_ctx = contextWindow (config (session st)),
                     temperature = config_temperature (config (session st))\<rparr>]
                 @ generated @
                 [call_mcp_tool_call (session_id (session st)) (function_name call')
                    (function_arguments call'),
                  addMessage_call (assistant_record (session st) call'),
                  addMessage_call (tool_record (session st) call' content')]\<rparr>))
     \<and> (\<forall>call w.
          (truthy_opt (call_id call) \<longrightarrow> ensure_id env call w = (call, w, []))
          \<and> (\<not> truthy_opt (call_id call) \<longrightarrow>
                ensure_id env call w =
                  (call\<lparr>call_id := Some (fst (uuid4 env w))\<rparr>, snd (uuid4 env w), [uuid4_call])))"
proof (intro conjI allI impI)
  assume "toolCalls message = []"
  then show "dispatch env model' prompt st =
          Some (Inr (stamp model' (session st) message),
                st\<lparr>session := (session st)
                   \<lparr>messages := messages (session st) @ [stamp model' (session st) message]\<rparr>,
                 world := w2,
                 effects := effects st @
                   [tools_call (session_id (session st)),
                    chat_call model' (messages (session st)) tools
                      \<lparr>num_ctx = contextWindow (config (session st)),
                       temperature = config_temperature (config (session st))\<rparr>,
                    save_call (stamp model' (session st) message)]\<rparr>)"
    by (subst dispatch.simps)
       (simp add: dispatch_round_reply [OF assms] finish_def save_def stamp_def Let_def)
next
  fix call rest call' w3 generated content' w4
  assume "toolCalls message = call # rest
          \<and> ensure_id env call w2 = (call', w3, generated)
          \<and> call_mcp_tool env w3 (session_id (session st)) (function_name call')
                (function_arguments call') = (Inr content', w4)"
  then show "dispatch env model' prompt st =
            dispatch env model' None
              (st\<lparr>session := (session st)
                 \<lparr>messages := messages (session st) @
                    [assistant_record (session st) call',
                     tool_record (session st) call' content']\<rparr>,
               world := w4,
               effects := effects st @
                 [tools_call (session_id (session st)),
                  chat_call model' (messages (session st)) tools
                    \<lparr>num_ctx = contextWindow (config (session st)),
                     temperature = config_temperature (config (session st))\<rparr>]
                 @ generated @
                 [call_mcp_tool_call (session_id (session st)) (function_name call')
                    (function_arguments call'),
                  addMessage_call (assistant_record (session st) call'),
                  addMessage_call (tool_record (session st) call' content')]\<rparr>)"
    apply (subst dispatch.simps)
    apply (simp add: dispatch_round_reply [OF assms] handle_call_def addMessage_def
          assistant_record_def tool_record_def Let_def)
    apply (rule arg_cong [where f = "dispatch env model' None"])
    apply (rule DispatchState.equality)
    apply simp_all
    done
qed (simp_all add: ensure_id_def split: prod.splits)



theorem C1_dispatch_round_witness:
  "dispatch (example_env (Inr ''72F'')) (example_model None)
     (Some ''What is the weather in NYC?'') example_state
   = dispatch (example_env (Inr ''72F'')) (example_model None) None
       (example_state_after_round ''72F'')
   \<and> dispatch (example_env (Inr ''72F'')) (example_model None) None
       (example_state_after_round ''72F'')
   = Some (Inr example_final, example_state_final ''72F'')"
proof -
  have call: "toolCalls (example_reply [] [example_call (Some [])])
                = example_call (Some []) # []
      \<and> ensure_id (example_env (Inr ''72F'')) (example_call (Some [])) ()
          = (example_call (Some ''uuid-1''), (), [uuid4_call])
      \<and> call_mcp_tool (example_env (Inr ''72F'')) () (session_id (session example_state))
          (function_name (example_call (Some ''uuid-1'')))
          (function_arguments (example_call (Some ''uuid-1''))) = (Inr ''72F'', ())"
    by (simp add: example_ensure_id) (simp add: example_reply_def example_env_def)
  from C1_dispatch_round [OF example_tools example_client example_reply_first,
      THEN conjunct2, THEN conjunct1, rule_format, OF call]
  have first: "dispatch (example_env (Inr ''72F'')) (example_model None)
     (Some ''What is the weather in NYC?'') example_state
   = dispatch (example_env (Inr ''72F'')) (example_model None) None
       (example_state_after_round ''72F'')"
    by (simp add: example_defs)
  have no_calls: "toolCalls (example_reply ''Sunny in NYC.'' []) = []"
    by (simp add: example_reply_def)
  from C1_dispatch_round [OF example_tools_after_round example_client example_reply_second,
      THEN conjunct1, rule_format, OF no_calls]
  have second: "dispatch (example_env (Inr ''72F'')) (example_model None) None
       (example_state_after_round ''72F'')
   = Some (Inr example_final, example_state_final ''72F'')"
    by (simp add: stamp_def example_defs)
  from first second show ?thesis by simp
qed


text \<open>
  The claim as stated puts the assistant message before the tool execution; in the example
  the tool is executed first.
\<close>

theorem C1_invoke_before_persist_counterexample:
  "effects (snd (the (dispatch (example_env (Inr ''72F'')) (example_model None)
                        (Some ''What is the weather in NYC?'') example_state)))
   = [tools_call (Some 1),
      chat_call (example_model None) [example_user] [] example_options,
      uuid4_call,
      call_mcp_tool_call (Some 1) ''get_weather'' [(''location'', ''NYC'')],
      addMessage_call
        (assistant_record (session example_state) (example_call (Some ''uuid-1''))),
      addMessage_call
        (tool_record (session example_state) (example_call (Some ''uuid-1'')) ''72F''),
      tools_call (Some 1),
      chat_call (example_model None)
        [example_user,
         assistant_record (session example_state) (example_call (Some ''uuid-1'')),
         tool_record (session example_state) (example_call (Some ''uuid-1'')) ''72F'']
        [] example_options,
      save_call example_final]"
  by (simp add: example_dispatch example_state_final_def example_round_effects_def
        example_persisted_def)


text \<open>
  C2 (as amended). Whatever text the tool execution returns becomes the content of the
  tool message and the loop goes on. When the tool execution itself fails, the failure
  ends the dispatch and reaches the caller; neither the assistant message nor a tool
  message has been persisted.
\<close>

theorem C2_tool_failure:
  assumes "session_tools env (world st) (session_id (session st)) = (Inr tools, w1)"
    and "engine_client_chat env (model_engineId model') = Some chat"
    and "chat w1 model' (messages (session st)) tools
           \<lparr>num_ctx = contextWindow (config (session st)),
            temperature = config_temperature (config (session st))\<rparr> = (Inr message, w2)"
    and "toolCalls message = call # rest"
    and "ensure_id env call w2 = (call', w3, generated)"
  shows "dispatch env model' prompt st =
           (case call_mcp_tool env w3 (session_id (session st)) (function_name call')
                   (function_arguments call') of
              (Inl e, w4) \<Rightarrow>
                Some (Inl e,
                      st\<lparr>world := w4,
                         effects := effects st @
                           [tools_call (session_id (session st)),
                            chat_call model' (messages (session st)) tools
                              \<lparr>num_ctx = contextWindow (config (session st)),
                               temperature = config_temperature (config (session st))\<rparr>]
                           @ generated @
                           [call_mcp_tool_call (session_id (session st)) (function_name call')
                              (function_arguments call')]\<rparr>)
            | (Inr content', w4) \<Rightarrow>
                dispatch env model' None
                  (st\<lparr>session := (session st)
                        \<lparr>messages := messages (session st) @
                           [assistant_record (session st) call',
                            tool_record (session st) call' content']\<rparr>,
                      world := w4,
                      effects := effects st @
                        [tools_call (session_id (session st)),
                         chat_call model' (messages (session st)) tools
                           \<lparr>num_ctx = contextWindow (config (session st)),
                            temperature = config_temperature (config (session st))\<rparr>]
                        @ generated @
                        [call_mcp_tool_call (session_id (session st)) (function_name call')
                           (function_arguments call'),
                         addMessage_call (assistant_record (session st) call'),
                         addMessage_call (tool_record (session st) call' content')]\<rparr>))"
proof (cases "call_mcp_tool env w3 (session_id (session st)) (function_name call')
                (function_arguments call')")
  case (Pair result w4)
  show ?thesis
  proof (cases result)
    case (Inl e)
    with Pair assms(4,5) show ?thesis
      by (subst dispatch.simps)
         (simp add: dispatch_round_reply [OF assms(1-3)] handle_call_def Let_def)
  next
    case (Inr content')
    with Pair assms(4,5) show ?thesis
      apply (subst dispatch.simps)
      apply (simp add: dispatch_round_reply [OF assms(1-3)] handle_call_def addMessage_def
          assistant_record_def tool_record_def Let_def)
      apply (rule arg_cong [where f = "dispatch env model' None"])
      apply (rule DispatchState.equality)
      apply simp_all
      done
  qed
qed



theorem C2_tool_failure_witness:
  "dispatch (example_env (Inl (Error ''boom''))) (example_model None)
     (Some ''What is the weather in NYC?'') example_state
   = Some (Inl (Error ''boom''),
           example_state\<lparr>effects := take 4 (example_round_effects [])\<rparr>)
   \<and> dispatch (example_env (Inr ''Error: unknown city'')) (example_model None)
       (Some ''What is the weather in NYC?'') example_state
   = dispatch (example_env (Inr ''Error: unknown city'')) (example_model None) None
       (example_state_after_round ''Error: unknown city'')"
proof -
  have call: "toolCalls (example_reply [] [example_call (Some [])])
                = example_call (Some []) # []"
    by (simp add: example_reply_def)
  from C2_tool_failure [OF example_tools example_client example_reply_first call
      example_ensure_id, of "Inl (Error ''boom'')"]
  have failing: "dispatch (example_env (Inl (Error ''boom''))) (example_model None)
     (Some ''What is the weather in NYC?'') example_state
   = Some (Inl (Error ''boom''),
           example_state\<lparr>effects := take 4 (example_round_effects [])\<rparr>)"
    by (simp add: example_defs)
  from C2_tool_failure [OF example_tools example_client example_reply_first call
      example_ensure_id, of "Inr ''Error: unknown city''"]
  have answering: "dispatch (example_env (Inr ''Error: unknown city'')) (example_model None)
       (Some ''What is the weather in NYC?'') example_state
   = dispatch (example_env (Inr ''Error: unknown city'')) (example_model None) None
       (example_state_after_round ''Error: unknown city'')"
    by (simp add: example_defs)
  from failing answering show ?thesis by simp
qed


text \<open>
  The claim as stated fails: a failing tool execution is raised to the caller, and the
  session's history is as it was.
\<close>

theorem C2_tool_failure_counterexample:
  "dispatch (example_env (Inl (Error ''boom''))) (example_model None)
     (Some ''What is the weather in NYC?'') example_state
   = Some (Inl (Error ''boom''),
           \<lparr>session = \<lparr>session_id = Some 1, config = example_config,
                       messages = [example_user]\<rparr>,
            world = (),
            effects =
              [tools_call (Some 1),
               chat_call (example_model None) [example_user] [] example_options,
               uuid4_call,
               call_mcp_tool_call (Some 1) ''get_weather'' [(''location'', ''NYC'')]]\<rparr>)"
proof -
  have "dispatch (example_env (Inl (Error ''boom''))) (example_model None)
          (Some ''What is the weather in NYC?'') example_state
        = Some (Inl (Error ''boom''),
                example_state\<lparr>effects := take 4 (example_round_effects [])\<rparr>)"
    by (subst dispatch.simps) (simp add: example_failing_round)
  then show ?thesis
    by (simp add: example_state_def example_round_effects_def)
qed


end
